theory Spec2Isabelle
  imports Complex_Main "HOL-Library.Multiset"
begin

section \<open>Errors\<close>

text \<open>
  Every \<^verbatim>\<open>raise\<close> of the modelled code, and every exception the Python runtime
  raises on its behalf, is a value of this type. A function that can raise returns
  \<open>error + 'a\<close>, with \<open>Inl\<close> for the exception.
\<close>

datatype error =
    StunsBelowZero int
  | TypeError
  | ValueError
  | KeyError
  | NotWithinGameWorld "int \<times> int"
  | ZeroDivisionError

section \<open>StunStatus\<close>

text \<open>
  \<^verbatim>\<open>class StunStatus\<close> of \<^verbatim>\<open>core/game_state.py\<close>: a counter of active stuns.
  \<^verbatim>\<open>remove_one\<close> decrements first and raises when the counter went below zero.
\<close>

record StunStatus =
  number_of_active_stuns :: int

definition StunStatus_init :: StunStatus where
  "StunStatus_init = \<lparr>number_of_active_stuns = 0\<rparr>"

definition add_one :: "StunStatus \<Rightarrow> StunStatus" where
  "add_one s = s\<lparr>number_of_active_stuns := number_of_active_stuns s + 1\<rparr>"

definition remove_one :: "StunStatus \<Rightarrow> error + StunStatus" where
  "remove_one s =
     (let s' = s\<lparr>number_of_active_stuns := number_of_active_stuns s - 1\<rparr>
      in if number_of_active_stuns s' < 0
         then Inl (StunsBelowZero (number_of_active_stuns s'))
         else Inr s')"

definition is_stunned :: "StunStatus \<Rightarrow> bool" where
  "is_stunned s = (number_of_active_stuns s > 0)"

text \<open>\<open>n\<close> calls of \<^verbatim>\<open>add_one\<close>, and \<open>n\<close> calls of \<^verbatim>\<open>remove_one\<close> that stop at the
  first exception.\<close>

fun add_many :: "nat \<Rightarrow> StunStatus \<Rightarrow> StunStatus" where
  "add_many 0 s = s"
| "add_many (Suc n) s = add_many n (add_one s)"

fun remove_many :: "nat \<Rightarrow> StunStatus \<Rightarrow> error + StunStatus" where
  "remove_many 0 s = Inr s"
| "remove_many (Suc n) s =
     (case remove_one s of Inl e \<Rightarrow> Inl e | Inr s' \<Rightarrow> remove_many n s')"

section \<open>HealthOrManaResource\<close>

text \<open>
  \<^verbatim>\<open>class HealthOrManaResource\<close>: a float accumulator \<^verbatim>\<open>_value_float\<close>, its floored
  integer snapshot \<^verbatim>\<open>value\<close> and the integer \<^verbatim>\<open>max_value\<close>. The accumulator and the
  amounts of \<^verbatim>\<open>gain\<close> and \<^verbatim>\<open>lose\<close> are Python floats; they are modelled as real
  numbers (exact arithmetic, so the statements below are about the gauge's algebra and not
  about rounding). The \<^verbatim>\<open>Observable\<close> member is modelled by the list of pairs
  \<^verbatim>\<open>(value, max_value)\<close> it was notified with, oldest first.
\<close>

record HealthOrManaResource =
  value_float :: real
  value_snapshot :: int
  max_value :: int
  base_regen :: real
  regen_bonus :: real
  value_was_updated :: "(int \<times> int) list"

definition HealthOrManaResource_init :: "int \<Rightarrow> real \<Rightarrow> HealthOrManaResource" where
  "HealthOrManaResource_init mx regen =
     \<lparr>value_float = real_of_int mx, value_snapshot = mx, max_value = mx,
      base_regen = regen, regen_bonus = 0, value_was_updated = []\<rparr>"

definition notify_observers :: "HealthOrManaResource \<Rightarrow> HealthOrManaResource" where
  "notify_observers g =
     g\<lparr>value_was_updated := value_was_updated g @ [(value_snapshot g, max_value g)]\<rparr>"



definition set_zero :: "HealthOrManaResource \<Rightarrow> HealthOrManaResource" where
  "set_zero g = notify_observers (g\<lparr>value_float := 0, value_snapshot := 0\<rparr>)"


definition is_at_max :: "HealthOrManaResource \<Rightarrow> bool" where
  "is_at_max g = (value_snapshot g = max_value g)"

definition is_at_or_below_zero :: "HealthOrManaResource \<Rightarrow> bool" where
  "is_at_or_below_zero g = (value_snapshot g \<le> 0)"











section \<open>BuffWithDuration and the store of buff objects\<close>

text \<open>
  \<^verbatim>\<open>class BuffWithDuration\<close>. The buff effect is a strategy object of type \<open>'e\<close>; the
  only thing the modelled code asks of it is \<^verbatim>\<open>get_buff_type()\<close>, which is passed to the
  functions that need it. \<^verbatim>\<open>Millis\<close> is \<^verbatim>\<open>int\<close>, and the two \<^verbatim>\<open>Optional[Millis]\<close>
  fields are options: \<open>None\<close> is Python's \<^verbatim>\<open>None\<close>.
\<close>

record 'e BuffWithDuration =
  buff_effect :: 'e
  time_until_expiration :: "int option"
  has_been_force_cancelled :: bool
  total_duration :: "int option"
  has_applied_start_effect :: bool

definition BuffWithDuration_init :: "'e \<Rightarrow> int option \<Rightarrow> 'e BuffWithDuration" where
  "BuffWithDuration_init effect duration =
     \<lparr>buff_effect = effect, time_until_expiration = duration,
      has_been_force_cancelled = False, total_duration = duration,
      has_applied_start_effect = False\<rparr>"

definition force_cancel :: "'e BuffWithDuration \<Rightarrow> 'e BuffWithDuration" where
  "force_cancel b = b\<lparr>has_been_force_cancelled := True, time_until_expiration := Some 0\<rparr>"

text \<open>\<^verbatim>\<open>self._time_until_expiration -= time\<close>: subtracting from \<^verbatim>\<open>None\<close> raises
  TypeError, and so does comparing \<^verbatim>\<open>None\<close> with \<open>0\<close>.\<close>

definition notify_time_passed :: "int \<Rightarrow> 'e BuffWithDuration \<Rightarrow> error + 'e BuffWithDuration" where
  "notify_time_passed time b =
     (case time_until_expiration b of
        None \<Rightarrow> Inl TypeError
      | Some t \<Rightarrow> Inr (b\<lparr>time_until_expiration := Some (t - time)\<rparr>))"

definition has_expired :: "'e BuffWithDuration \<Rightarrow> error + bool" where
  "has_expired b =
     (case time_until_expiration b of
        None \<Rightarrow> Inl TypeError
      | Some t \<Rightarrow> Inr (t \<le> 0))"

definition set_remaining_duration :: "int \<Rightarrow> 'e BuffWithDuration \<Rightarrow> 'e BuffWithDuration" where
  "set_remaining_duration time b = b\<lparr>time_until_expiration := Some time\<rparr>"

text \<open>
  Buffs are objects: the active-buff list of an owner and the three lists that
  \<^verbatim>\<open>handle_buffs\<close> returns hold references to the same objects, and
  \<^verbatim>\<open>list.remove\<close> compares by identity (the class defines no \<^verbatim>\<open>__eq__\<close>). A reference
  is an address, and the store maps every address to the object it holds.
  \<open>next_addr\<close> is the address the next constructor call gets.
\<close>

type_synonym addr = nat

type_synonym 'e buffs = "addr \<Rightarrow> 'e BuffWithDuration"

record 'e buff_store =
  objects :: "'e buffs"
  next_addr :: addr

definition new_buff :: "'e BuffWithDuration \<Rightarrow> 'e buff_store \<Rightarrow> addr \<times> 'e buff_store" where
  "new_buff b st =
     (next_addr st, st\<lparr>objects := (objects st)(next_addr st := b), next_addr := Suc (next_addr st)\<rparr>)"

section \<open>handle_buffs\<close>

record AgentBuffsUpdate =
  buffs_that_started :: "addr list"
  buffs_that_were_active :: "addr list"
  buffs_that_ended :: "addr list"

text \<open>
  The body of the \<^verbatim>\<open>for buff in copied_buffs_list\<close> loop of \<^verbatim>\<open>handle_buffs\<close> in
  \<^verbatim>\<open>core/game_engine.py\<close> (and of \<^verbatim>\<open>PlayerState.handle_buffs\<close>, which is the same
  loop). The loop state is the store, the owner's list \<^verbatim>\<open>active_buffs\<close> and the three
  result lists. \<^verbatim>\<open>active_buffs.remove(buff)\<close> raises ValueError when the buff is not in
  the list.
\<close>

definition handle_buff ::
  "int \<Rightarrow> addr \<Rightarrow> 'e buffs \<times> addr list \<times> AgentBuffsUpdate \<Rightarrow>
   error + ('e buffs \<times> addr list \<times> AgentBuffsUpdate)" where
  "handle_buff time_passed buff st =
     (case st of (h, active_buffs, upd) \<Rightarrow>
        (case notify_time_passed time_passed (h buff) of
           Inl e \<Rightarrow> Inl e
         | Inr b \<Rightarrow>
             let h1 = h(buff := b);
                 upd1 = (if \<not> has_been_force_cancelled b
                         then upd\<lparr>buffs_that_were_active := buffs_that_were_active upd @ [buff]\<rparr>
                         else upd)
             in if \<not> has_applied_start_effect b
                then Inr (h1(buff := b\<lparr>has_applied_start_effect := True\<rparr>), active_buffs,
                          upd1\<lparr>buffs_that_started := buffs_that_started upd1 @ [buff]\<rparr>)
                else (case has_expired b of
                        Inl e \<Rightarrow> Inl e
                      | Inr True \<Rightarrow>
                          if buff \<in> set active_buffs
                          then Inr (h1, remove1 buff active_buffs,
                                    upd1\<lparr>buffs_that_ended := buffs_that_ended upd1 @ [buff]\<rparr>)
                          else Inl ValueError
                      | Inr False \<Rightarrow> Inr (h1, active_buffs, upd1))))"

fun handle_buffs_loop ::
  "int \<Rightarrow> addr list \<Rightarrow> 'e buffs \<times> addr list \<times> AgentBuffsUpdate \<Rightarrow>
   error + ('e buffs \<times> addr list \<times> AgentBuffsUpdate)" where
  "handle_buffs_loop time_passed [] st = Inr st"
| "handle_buffs_loop time_passed (buff # rest) st =
     (case handle_buff time_passed buff st of
        Inl e \<Rightarrow> Inl e
      | Inr st' \<Rightarrow> handle_buffs_loop time_passed rest st')"

text \<open>\<^verbatim>\<open>handle_buffs(active_buffs, time_passed)\<close>: the loop runs over a copy of the list.
  The result is the store, the owner's list after the removals, and the update.\<close>

definition handle_buffs ::
  "'e buffs \<Rightarrow> addr list \<Rightarrow> int \<Rightarrow> error + ('e buffs \<times> addr list \<times> AgentBuffsUpdate)" where
  "handle_buffs h active_buffs time_passed =
     (let copied_buffs_list = active_buffs
      in handle_buffs_loop time_passed copied_buffs_list
           (h, active_buffs,
            \<lparr>buffs_that_started = [], buffs_that_were_active = [], buffs_that_ended = []\<rparr>))"




text \<open>The effect of one tick on a buff, as the loop body applies it.\<close>

definition ticked :: "int \<Rightarrow> 'e BuffWithDuration \<Rightarrow> 'e BuffWithDuration" where
  "ticked dt b =
     b\<lparr>time_until_expiration := map_option (\<lambda>t. t - dt) (time_until_expiration b),
       has_applied_start_effect := True\<rparr>"

definition ends_now :: "int \<Rightarrow> 'e BuffWithDuration \<Rightarrow> bool" where
  "ends_now dt b =
     (has_applied_start_effect b \<and>
      (case time_until_expiration b of None \<Rightarrow> False | Some t \<Rightarrow> t - dt \<le> 0))"

section \<open>NonPlayerCharacter\<close>

text \<open>
  Of \<^verbatim>\<open>class NonPlayerCharacter\<close>, the members the modelled methods read or write.
  \<^verbatim>\<open>world_entity\<close> is a reference into the store of world entities (below).
\<close>

record NonPlayerCharacter =
  npc_world_entity :: addr
  npc_health_resource :: HealthOrManaResource
  npc_active_buffs :: "addr list"
  npc_stun_status :: StunStatus

text \<open>\<^verbatim>\<open>NonPlayerCharacter.gain_buff_effect\<close>; \<open>get_buff_type\<close> is the method of the
  buff effects.\<close>

definition npc_gain_buff_effect ::
  "('e \<Rightarrow> 'bt) \<Rightarrow> 'e \<Rightarrow> int \<Rightarrow> 'e buff_store \<times> NonPlayerCharacter \<Rightarrow>
   'e buff_store \<times> NonPlayerCharacter" where
  "npc_gain_buff_effect get_buff_type buff duration stn =
     (case stn of (st, npc) \<Rightarrow>
        (let existing_buffs_with_this_type =
               filter (\<lambda>b. get_buff_type (buff_effect (objects st b)) = get_buff_type buff)
                 (npc_active_buffs npc)
         in case existing_buffs_with_this_type of
              b # _ \<Rightarrow>
                (st\<lparr>objects := (objects st)(b := set_remaining_duration duration (objects st b))\<rparr>,
                 npc)
            | [] \<Rightarrow>
                (case new_buff (BuffWithDuration_init buff (Some duration)) st of
                   (a, st') \<Rightarrow> (st', npc\<lparr>npc_active_buffs := npc_active_buffs npc @ [a]\<rparr>))))"


section \<open>PlayerState\<close>

text \<open>
  \<^verbatim>\<open>PlayerLevelBonus(health, mana, armor)\<close> is declared in \<^verbatim>\<open>core/game_data.py\<close>; the
  hero files construct it with two integers and a float.
\<close>

record PlayerLevelBonus =
  bonus_health :: int
  bonus_mana :: int
  bonus_armor :: real


text \<open>
  Of \<^verbatim>\<open>class PlayerState\<close>, the members that \<^verbatim>\<open>gain_buff_effect\<close>,
  \<^verbatim>\<open>handle_buffs\<close>, \<^verbatim>\<open>gain_exp\<close>, \<^verbatim>\<open>_update_stats_for_new_level\<close> and
  \<^verbatim>\<open>gain_ability\<close> read or write. \<open>'a\<close> is \<^verbatim>\<open>AbilityType\<close> and \<open>'ts\<close> is
  \<^verbatim>\<open>TalentsState\<close>. The member \<^verbatim>\<open>exp\<close> is \<open>player_exp\<close> here. Each \<^verbatim>\<open>Observable\<close> is
  the list of the values it was notified with, oldest first; \<^verbatim>\<open>stats_were_updated\<close> is
  notified with the player state itself, of which the list keeps the level and the two
  maxima at the time of the notification. The float modifiers are real numbers.
\<close>

record ('a, 'ts) PlayerState =
  health_resource :: HealthOrManaResource
  mana_resource :: HealthOrManaResource
  abilities :: "'a list"
  ability_cooldowns_remaining :: "'a \<rightharpoonup> int"
  active_buffs :: "addr list"
  stun_status :: StunStatus
  player_exp :: int
  level :: int
  max_exp_in_this_level :: int
  new_level_abilities :: "int \<rightharpoonup> 'a"
  base_physical_damage_modifier :: real
  base_magic_damage_modifier :: real
  base_armor :: real
  level_bonus :: PlayerLevelBonus
  talents_state :: 'ts
  talents_were_updated :: "'ts list"
  stats_were_updated :: "(int \<times> int \<times> int) list"
  exp_was_updated :: "(int \<times> real) list"
  cooldowns_were_updated :: "('a \<rightharpoonup> int) list"
  buffs_were_updated :: "addr list list"

text \<open>\<^verbatim>\<open>PlayerState.__init__\<close>, for the members above: a new player is at level 1 with
  no experience, 50 to reach the next level, and a cooldown of \<open>0\<close> for each ability.
  \<^verbatim>\<open>TalentsState(talents_config)\<close> is passed as such.\<close>

definition PlayerState_init ::
  "HealthOrManaResource \<Rightarrow> HealthOrManaResource \<Rightarrow> 'a list \<Rightarrow> (int \<rightharpoonup> 'a) \<Rightarrow> real \<Rightarrow>
   PlayerLevelBonus \<Rightarrow> 'ts \<Rightarrow> ('a, 'ts) PlayerState" where
  "PlayerState_init health mana ability_list level_abilities armor bonus talents =
     \<lparr>health_resource = health, mana_resource = mana, abilities = ability_list,
      ability_cooldowns_remaining = (\<lambda>a. if a \<in> set ability_list then Some 0 else None),
      active_buffs = [], stun_status = StunStatus_init,
      player_exp = 0, level = 1, max_exp_in_this_level = 50,
      new_level_abilities = level_abilities,
      base_physical_damage_modifier = 1, base_magic_damage_modifier = 1,
      base_armor = armor, level_bonus = bonus, talents_state = talents,
      talents_were_updated = [], stats_were_updated = [], exp_was_updated = [],
      cooldowns_were_updated = [], buffs_were_updated = []\<rparr>"

definition notify_buff_observers :: "('a, 'ts) PlayerState \<Rightarrow> ('a, 'ts) PlayerState" where
  "notify_buff_observers p = p\<lparr>buffs_were_updated := buffs_were_updated p @ [active_buffs p]\<rparr>"





text \<open>\<^verbatim>\<open>PlayerState.gain_buff_effect\<close>: the method of the NPC, followed by the
  notification of the buff observers.\<close>

definition gain_buff_effect ::
  "('e \<Rightarrow> 'bt) \<Rightarrow> 'e \<Rightarrow> int \<Rightarrow> 'e buff_store \<times> ('a, 'ts) PlayerState \<Rightarrow>
   'e buff_store \<times> ('a, 'ts) PlayerState" where
  "gain_buff_effect get_buff_type buff duration stp =
     (case stp of (st, p) \<Rightarrow>
        (let existing_buffs_with_this_type =
               filter (\<lambda>b. get_buff_type (buff_effect (objects st b)) = get_buff_type buff)
                 (active_buffs p)
         in case existing_buffs_with_this_type of
              b # _ \<Rightarrow>
                (st\<lparr>objects := (objects st)(b := set_remaining_duration duration (objects st b))\<rparr>,
                 notify_buff_observers p)
            | [] \<Rightarrow>
                (case new_buff (BuffWithDuration_init buff (Some duration)) st of
                   (a, st') \<Rightarrow>
                     (st', notify_buff_observers (p\<lparr>active_buffs := active_buffs p @ [a]\<rparr>)))))"

text \<open>\<^verbatim>\<open>PlayerState.handle_buffs\<close>: the loop of \<^verbatim>\<open>handle_buffs\<close> on the player's own
  list, then the notification.\<close>

definition player_handle_buffs ::
  "int \<Rightarrow> 'e buffs \<times> ('a, 'ts) PlayerState \<Rightarrow>
   error + ('e buffs \<times> ('a, 'ts) PlayerState \<times> AgentBuffsUpdate)" where
  "player_handle_buffs time_passed hp =
     (case hp of (h, p) \<Rightarrow>
        (case handle_buffs h (active_buffs p) time_passed of
           Inl e \<Rightarrow> Inl e
         | Inr (h', active', upd) \<Rightarrow>
             Inr (h', notify_buff_observers (p\<lparr>active_buffs := active'\<rparr>), upd)))"









section \<open>Rectangles and world entities\<close>

text \<open>
  \<^verbatim>\<open>pygame.Rect\<close>: four integers, with the corners \<^verbatim>\<open>topleft\<close> and \<^verbatim>\<open>bottomright\<close>
  as pygame computes them.
\<close>

record Rect =
  rect_x :: int
  rect_y :: int
  rect_w :: int
  rect_h :: int

definition topleft :: "Rect \<Rightarrow> int \<times> int" where
  "topleft r = (rect_x r, rect_y r)"

definition bottomright :: "Rect \<Rightarrow> int \<times> int" where
  "bottomright r = (rect_x r + rect_w r, rect_y r + rect_h r)"

datatype Direction = LEFT | RIGHT | UP | DOWN

text \<open>
  What the modelled code calls but the sources do not hold: \<^verbatim>\<open>translate_in_direction\<close>
  of \<^verbatim>\<open>core/math.py\<close>, and pygame's \<^verbatim>\<open>Rect.colliderect\<close> and \<^verbatim>\<open>Rect.collidepoint\<close>.
  They are parameters, and the theorems hold whatever they compute.
\<close>

record externals =
  translate_in_direction :: "int \<times> int \<Rightarrow> Direction \<Rightarrow> real \<Rightarrow> int \<times> int"
  colliderect :: "Rect \<Rightarrow> Rect \<Rightarrow> bool"
  collidepoint :: "Rect \<Rightarrow> int \<Rightarrow> int \<Rightarrow> bool"

text \<open>
  Of \<^verbatim>\<open>class WorldEntity\<close>, the members that the movement reads or writes; \<^verbatim>\<open>x\<close>,
  \<^verbatim>\<open>y\<close>, \<^verbatim>\<open>w\<close> and \<^verbatim>\<open>h\<close> are \<open>ent_x\<close>, \<open>ent_y\<close>, \<open>ent_w\<close> and \<open>ent_h\<close>, integers as
  the class annotates them. World entities are objects too: the game state refers to them
  by address, and \<open>entities\<close> is the store.
\<close>

record WorldEntity =
  ent_x :: int
  ent_y :: int
  ent_w :: int
  ent_h :: int
  direction :: Direction
  speed :: real
  speed_multiplier :: real
  effective_speed :: real
  is_moving :: bool
  pygame_collision_rect :: Rect

type_synonym entities = "addr \<Rightarrow> WorldEntity"

definition get_new_position_according_to_dir_and_speed ::
  "externals \<Rightarrow> int \<Rightarrow> WorldEntity \<Rightarrow> (int \<times> int) option" where
  "get_new_position_according_to_dir_and_speed ext time_passed e =
     (let distance = effective_speed e * real_of_int time_passed
      in if is_moving e
         then Some (translate_in_direction ext (ent_x e, ent_y e) (direction e) distance)
         else None)"

definition get_position :: "WorldEntity \<Rightarrow> int \<times> int" where
  "get_position e = (ent_x e, ent_y e)"

definition set_position :: "int \<times> int \<Rightarrow> WorldEntity \<Rightarrow> WorldEntity" where
  "set_position new_position e =
     (let e1 = e\<lparr>ent_x := fst new_position, ent_y := snd new_position\<rparr>
      in e1\<lparr>pygame_collision_rect :=
              \<lparr>rect_x = ent_x e1, rect_y = ent_y e1, rect_w = ent_w e1, rect_h = ent_h e1\<rparr>\<rparr>)"

section \<open>Buckets\<close>

text \<open>
  \<^verbatim>\<open>class Buckets\<close>. \<^verbatim>\<open>_buckets\<close> is a dictionary of dictionaries of lists whose keys
  are \<^verbatim>\<open>range(w // 100 + 1)\<close> and \<^verbatim>\<open>range(h // 100 + 1)\<close>; it is the list of lists of
  lists indexed by these keys, so that \<^verbatim>\<open>len\<close> is \<open>length\<close>, and a key outside the range
  raises KeyError. The stored entities have type \<open>'a\<close>, and their method
  \<^verbatim>\<open>get_position\<close> is a parameter of the functions that call it.
\<close>

record 'a Buckets =
  buckets :: "'a list list list"
  buckets_world_area :: Rect

definition BUCKET_WIDTH :: int where
  "BUCKET_WIDTH = 100"

definition BUCKET_HEIGHT :: int where
  "BUCKET_HEIGHT = 100"

definition bucket_index_for_world_position :: "'a Buckets \<Rightarrow> int \<times> int \<Rightarrow> int \<times> int" where
  "bucket_index_for_world_position b world_position =
     (let x_bucket = (fst world_position - rect_x (buckets_world_area b)) div BUCKET_WIDTH;
          y_bucket = (snd world_position - rect_y (buckets_world_area b)) div BUCKET_HEIGHT
      in (x_bucket, y_bucket))"

definition bucket_for_world_position :: "'a Buckets \<Rightarrow> int \<times> int \<Rightarrow> error + 'a list" where
  "bucket_for_world_position b world_position =
     (case bucket_index_for_world_position b world_position of
        (x_bucket, y_bucket) \<Rightarrow>
          if 0 \<le> x_bucket \<and> x_bucket < int (length (buckets b))
          then (let column = buckets b ! nat x_bucket
                in if 0 \<le> y_bucket \<and> y_bucket < int (length column)
                   then Inr (column ! nat y_bucket)
                   else Inl KeyError)
          else Inl KeyError)"

text \<open>Storing a changed bucket back, for \<^verbatim>\<open>bucket.append\<close> and \<^verbatim>\<open>bucket.remove\<close>, which
  change the list in place.\<close>

definition set_bucket :: "'a Buckets \<Rightarrow> int \<times> int \<Rightarrow> 'a list \<Rightarrow> 'a Buckets" where
  "set_bucket b ix bucket =
     b\<lparr>buckets := (buckets b)[nat (fst ix) := (buckets b ! nat (fst ix))[nat (snd ix) := bucket]]\<rparr>"

definition add_entity :: "('a \<Rightarrow> int \<times> int) \<Rightarrow> 'a \<Rightarrow> 'a Buckets \<Rightarrow> error + 'a Buckets" where
  "add_entity position_of entity b =
     (case bucket_for_world_position b (position_of entity) of
        Inl e \<Rightarrow> Inl e
      | Inr bucket \<Rightarrow>
          Inr (set_bucket b (bucket_index_for_world_position b (position_of entity))
                 (bucket @ [entity])))"

definition remove_entity :: "('a \<Rightarrow> int \<times> int) \<Rightarrow> 'a \<Rightarrow> 'a Buckets \<Rightarrow> error + 'a Buckets" where
  "remove_entity position_of entity b =
     (case bucket_for_world_position b (position_of entity) of
        Inl e \<Rightarrow> Inl e
      | Inr bucket \<Rightarrow>
          if entity \<in> set bucket
          then Inr (set_bucket b (bucket_index_for_world_position b (position_of entity))
                      (remove1 entity bucket))
          else Inl ValueError)"

fun add_entities :: "('a \<Rightarrow> int \<times> int) \<Rightarrow> 'a list \<Rightarrow> 'a Buckets \<Rightarrow> error + 'a Buckets" where
  "add_entities position_of [] b = Inr b"
| "add_entities position_of (entity # rest) b =
     (case add_entity position_of entity b of
        Inl e \<Rightarrow> Inl e
      | Inr b' \<Rightarrow> add_entities position_of rest b')"

definition Buckets_init :: "('a \<Rightarrow> int \<times> int) \<Rightarrow> 'a list \<Rightarrow> Rect \<Rightarrow> error + 'a Buckets" where
  "Buckets_init position_of entity_list entire_world_area =
     add_entities position_of entity_list
       \<lparr>buckets = replicate (nat (rect_w entire_world_area div BUCKET_WIDTH + 1))
                    (replicate (nat (rect_h entire_world_area div BUCKET_HEIGHT + 1)) []),
        buckets_world_area = entire_world_area\<rparr>"

text \<open>
  \<^verbatim>\<open>_buckets_between_indices\<close>: the generator, as the list of the buckets it yields.
  \<^verbatim>\<open>range(a, b)\<close> is \<open>[a..b - 1]\<close>. Every index of the two ranges is a key of the
  dictionary it is looked up in (\<open>range_index_valid\<close> below), so no lookup raises.
\<close>

definition buckets_between_indices :: "'a Buckets \<Rightarrow> int \<Rightarrow> int \<Rightarrow> int \<Rightarrow> int \<Rightarrow> 'a list list" where
  "buckets_between_indices b x0 x1 y0 y1 =
     concat (map (\<lambda>x_bucket.
                    map (\<lambda>y_bucket. buckets b ! nat x_bucket ! nat y_bucket)
                      [max 0 y0 .. min (y1 + 1) (int (length (buckets b ! nat x_bucket)) - 1) - 1])
               [max 0 x0 .. min (x1 + 1) (int (length (buckets b)) - 1) - 1])"

definition get_entitites_close_to_world_area :: "'a Buckets \<Rightarrow> Rect \<Rightarrow> 'a list" where
  "get_entitites_close_to_world_area b world_area =
     (case bucket_index_for_world_position b (topleft world_area) of
        (x0_bucket, y0_bucket) \<Rightarrow>
          (case bucket_index_for_world_position b (bottomright world_area) of
             (x1_bucket, y1_bucket) \<Rightarrow>
               concat (buckets_between_indices b
                         (x0_bucket - 1) (x1_bucket + 1) (y0_bucket - 1) (y1_bucket + 1))))"

definition get_entities_close_to_position :: "'a Buckets \<Rightarrow> int \<times> int \<Rightarrow> 'a list" where
  "get_entities_close_to_position b position =
     (case bucket_index_for_world_position b position of
        (x_bucket, y_bucket) \<Rightarrow>
          concat (buckets_between_indices b
                    (x_bucket - 1) (x_bucket + 1) (y_bucket - 1) (y_bucket + 1)))"

section \<open>GameState: the movement of a world entity\<close>

text \<open>
  \<^verbatim>\<open>class WallsState\<close> and, of \<^verbatim>\<open>class GameState\<close>, the members that the movement
  reads. A wall, a portal, a warp point and a chest are wrappers of which the movement
  reads the \<^verbatim>\<open>world_entity\<close> only: each list holds these world entities, in the order
  of the list of wrappers.
\<close>

record WallsState =
  walls :: "addr list"
  walls_buckets :: "addr Buckets"

definition get_walls_close_to_position :: "WallsState \<Rightarrow> int \<times> int \<Rightarrow> addr list" where
  "get_walls_close_to_position ws position =
     get_entities_close_to_position (walls_buckets ws) position"

record GameState =
  player_entity :: addr
  non_player_characters :: "NonPlayerCharacter list"
  walls_state :: WallsState
  entire_world_area :: Rect
  portals :: "addr list"
  warp_points :: "addr list"
  chests :: "addr list"

definition get_within_world :: "GameState \<Rightarrow> int \<times> int \<Rightarrow> int \<times> int \<Rightarrow> int \<times> int" where
  "get_within_world gs pos entity_size =
     (let x = max (rect_x (entire_world_area gs))
                (min (rect_x (entire_world_area gs) + rect_w (entire_world_area gs)
                      - fst entity_size)
                   (fst pos));
          y = max (rect_y (entire_world_area gs))
                (min (rect_y (entire_world_area gs) + rect_h (entire_world_area gs)
                      - snd entity_size)
                   (snd pos))
      in (x, y))"

definition is_position_within_game_world :: "externals \<Rightarrow> GameState \<Rightarrow> int \<times> int \<Rightarrow> bool" where
  "is_position_within_game_world ext gs position =
     collidepoint ext (entire_world_area gs) (fst position) (snd position)"

definition entities_collide :: "externals \<Rightarrow> WorldEntity \<Rightarrow> WorldEntity \<Rightarrow> bool" where
  "entities_collide ext a b = colliderect ext (pygame_collision_rect a) (pygame_collision_rect b)"

text \<open>The list \<^verbatim>\<open>other_entities\<close> that \<^verbatim>\<open>would_entity_collide_if_new_pos\<close> builds, for
  the position the entity was moved to.\<close>

definition other_entities :: "GameState \<Rightarrow> int \<times> int \<Rightarrow> addr list" where
  "other_entities gs position =
     map npc_world_entity (non_player_characters gs) @ [player_entity gs]
     @ get_walls_close_to_position (walls_state gs) position
     @ portals gs @ warp_points gs @ chests gs"

text \<open>
  \<^verbatim>\<open>would_entity_collide_if_new_pos\<close> moves the entity, looks for collisions and moves
  it back; it returns the answer with the store. \<^verbatim>\<open>any\<close> of a list of objects is true
  when the list is not empty.
\<close>

definition would_entity_collide_if_new_pos ::
  "externals \<Rightarrow> GameState \<Rightarrow> entities \<Rightarrow> addr \<Rightarrow> int \<times> int \<Rightarrow> error + (bool \<times> entities)" where
  "would_entity_collide_if_new_pos ext gs es entity new_pos_within_world =
     (if \<not> is_position_within_game_world ext gs new_pos_within_world
      then Inl (NotWithinGameWorld new_pos_within_world)
      else (let old_pos = (ent_x (es entity), ent_y (es entity));
                es1 = es(entity := set_position new_pos_within_world (es entity));
                others = other_entities gs (get_position (es1 entity));
                collision =
                  (filter (\<lambda>other. entities_collide ext (es1 entity) (es1 other) \<and> entity \<noteq> other)
                     others \<noteq> []);
                es2 = es1(entity := set_position old_pos (es1 entity))
            in Inr (collision, es2)))"

definition update_world_entity_position_within_game_world ::
  "externals \<Rightarrow> GameState \<Rightarrow> entities \<Rightarrow> addr \<Rightarrow> int \<Rightarrow> error + entities" where
  "update_world_entity_position_within_game_world ext gs es entity time_passed =
     (case get_new_position_according_to_dir_and_speed ext time_passed (es entity) of
        None \<Rightarrow> Inr es
      | Some new_position \<Rightarrow>
          (let new_pos_within_world =
                 get_within_world gs new_position (ent_w (es entity), ent_h (es entity))
           in case would_entity_collide_if_new_pos ext gs es entity new_pos_within_world of
                Inl e \<Rightarrow> Inl e
              | Inr (collision, es') \<Rightarrow>
                  if \<not> collision
                  then Inr (es'(entity := set_position new_pos_within_world (es' entity)))
                  else Inr es'))"


section \<open>Concrete inputs\<close>

text \<open>A store in which every address holds a copy of one buff, a store of two buffs of
  different types, and a warrior at level 1.\<close>

definition every_buff :: "'e BuffWithDuration \<Rightarrow> 'e buffs" where
  "every_buff b = (\<lambda>a. b)"

definition example_store :: "nat buff_store" where
  "example_store =
     \<lparr>objects = (every_buff (BuffWithDuration_init 7 (Some 100)))
                  (1 := \<lparr>buff_effect = 4, time_until_expiration = Some 5,
                         has_been_force_cancelled = False, total_duration = Some 100,
                         has_applied_start_effect = True\<rparr>),
      next_addr = 2\<rparr>"

definition example_player :: "(nat, unit) PlayerState" where
  "example_player =
     PlayerState_init (HealthOrManaResource_init 60 0) (HealthOrManaResource_init 30 2) []
       Map.empty 3 \<lparr>bonus_health = 15, bonus_mana = 5, bonus_armor = 3 / 2\<rparr> ()"



text \<open>
  A bucket index built from a list of entities and then queried with a rectangle or
  looked up at a position, and the bucket index of a position in a world area.
\<close>

definition query_after_init :: "('a \<Rightarrow> int \<times> int) \<Rightarrow> 'a list \<Rightarrow> Rect \<Rightarrow> Rect \<Rightarrow> error + 'a list" where
  "query_after_init position_of entity_list whole_area world_area =
     (case Buckets_init position_of entity_list whole_area of
        Inl e \<Rightarrow> Inl e
      | Inr b \<Rightarrow> Inr (get_entitites_close_to_world_area b world_area))"

definition bucket_after_init ::
  "('a \<Rightarrow> int \<times> int) \<Rightarrow> 'a list \<Rightarrow> Rect \<Rightarrow> int \<times> int \<Rightarrow> error + 'a list" where
  "bucket_after_init position_of entity_list whole_area world_position =
     (case Buckets_init position_of entity_list whole_area of
        Inl e \<Rightarrow> Inl e
      | Inr b \<Rightarrow> bucket_for_world_position b world_position)"

definition bucket_index_in_world :: "Rect \<Rightarrow> int \<times> int \<Rightarrow> int \<times> int" where
  "bucket_index_in_world whole_area world_position =
     bucket_index_for_world_position
       \<lparr>buckets = ([] :: unit list list list), buckets_world_area = whole_area\<rparr>
       world_position"

text \<open>
  A world of 100 by 100 without walls, in which the player (address 0, at (10, 10),
  10 by 10, moving right at speed 1) has an NPC (address 1, at (25, 10)) on its way;
  the external functions are the translation by the floor of the distance and the
  intersection tests of axis-aligned rectangles.
\<close>

definition every_entity :: "WorldEntity \<Rightarrow> entities" where
  "every_entity e = (\<lambda>a. e)"

definition example_externals :: externals where
  "example_externals =
     \<lparr>translate_in_direction =
        (\<lambda>position dir amount.
           case dir of
             RIGHT \<Rightarrow> (fst position + \<lfloor>amount\<rfloor>, snd position)
           | LEFT \<Rightarrow> (fst position - \<lfloor>amount\<rfloor>, snd position)
           | DOWN \<Rightarrow> (fst position, snd position + \<lfloor>amount\<rfloor>)
           | UP \<Rightarrow> (fst position, snd position - \<lfloor>amount\<rfloor>)),
      colliderect =
        (\<lambda>a b. rect_x a < rect_x b + rect_w b \<and> rect_x b < rect_x a + rect_w a
               \<and> rect_y a < rect_y b + rect_h b \<and> rect_y b < rect_y a + rect_h a),
      collidepoint =
        (\<lambda>r px py. rect_x r \<le> px \<and> px < rect_x r + rect_w r
                  \<and> rect_y r \<le> py \<and> py < rect_y r + rect_h r)\<rparr>"

definition entity_at :: "int \<times> int \<Rightarrow> Direction \<Rightarrow> real \<Rightarrow> WorldEntity" where
  "entity_at pos dir spd =
     \<lparr>ent_x = fst pos, ent_y = snd pos, ent_w = 10, ent_h = 10, direction = dir,
      speed = spd, speed_multiplier = 1, effective_speed = spd, is_moving = True,
      pygame_collision_rect = \<lparr>rect_x = fst pos, rect_y = snd pos, rect_w = 10, rect_h = 10\<rparr>\<rparr>"

definition example_entities :: entities where
  "example_entities = (every_entity (entity_at (10, 10) RIGHT 1)) (1 := entity_at (25, 10) LEFT 0)"

definition example_game_state :: GameState where
  "example_game_state =
     \<lparr>player_entity = 0,
      non_player_characters =
        [\<lparr>npc_world_entity = 1, npc_health_resource = HealthOrManaResource_init 10 0,
          npc_active_buffs = [], npc_stun_status = StunStatus_init\<rparr>],
      walls_state =
        \<lparr>walls = [],
         walls_buckets =
           \<lparr>buckets = [[[], []], [[], []]],
            buckets_world_area = \<lparr>rect_x = 0, rect_y = 0, rect_w = 100, rect_h = 100\<rparr>\<rparr>\<rparr>,
      entire_world_area = \<lparr>rect_x = 0, rect_y = 0, rect_w = 100, rect_h = 100\<rparr>,
      portals = [], warp_points = [], chests = []\<rparr>"

text \<open>
  A world of 250 by 250 whose only wall (address 2, at (210, 100), 10 by 10) is in the
  last column of the grid, cell (2, 1), with the player (address 0, at (195, 100),
  10 by 10, moving right at speed 1) next to it.
\<close>

definition walled_entities :: entities where
  "walled_entities =
     (every_entity (entity_at (195, 100) RIGHT 1)) (2 := entity_at (210, 100) LEFT 0)"

definition walled_game_state :: GameState where
  "walled_game_state =
     \<lparr>player_entity = 0,
      non_player_characters = [],
      walls_state =
        \<lparr>walls = [2],
         walls_buckets =
           \<lparr>buckets = [[[], [], []], [[], [], []], [[], [2], []]],
            buckets_world_area = \<lparr>rect_x = 0, rect_y = 0, rect_w = 250, rect_h = 250\<rparr>\<rparr>\<rparr>,
      entire_world_area = \<lparr>rect_x = 0, rect_y = 0, rect_w = 250, rect_h = 250\<rparr>,
      portals = [], warp_points = [], chests = []\<rparr>"

section \<open>Properties of StunStatus\<close>

lemma add_many_count:
  "number_of_active_stuns (add_many n s) = number_of_active_stuns s + int n"
  by (induction n arbitrary: s) (simp_all add: add_one_def)

lemma remove_many_enough:
  "int n \<le> number_of_active_stuns s \<Longrightarrow>
   remove_many n s = Inr (s\<lparr>number_of_active_stuns := number_of_active_stuns s - int n\<rparr>)"
proof (induction n arbitrary: s)
  case 0
  then show ?case by simp
next
  case (Suc n)
  let ?s' = "s\<lparr>number_of_active_stuns := number_of_active_stuns s - 1\<rparr>"
  from Suc.prems have r: "remove_one s = Inr ?s'"
    by (simp add: remove_one_def Let_def)
  from Suc.prems have "int n \<le> number_of_active_stuns ?s'" by simp
  from Suc.IH [OF this] r show ?case by simp
qed

lemma add_many_init: "add_many n StunStatus_init = \<lparr>number_of_active_stuns = int n\<rparr>"
proof -
  have "number_of_active_stuns (add_many n StunStatus_init) = int n"
    by (simp add: add_many_count StunStatus_init_def)
  then show ?thesis by (cases "add_many n StunStatus_init") simp
qed

text \<open>
  C9. A fresh StunStatus that receives \<open>N\<close> calls of \<^verbatim>\<open>add_one\<close> and then \<open>N\<close> calls of
  \<^verbatim>\<open>remove_one\<close> comes back, without an exception, to a status that is not stunned; one
  more \<^verbatim>\<open>remove_one\<close> raises the exception that reports the counter at \<open>-1\<close>.
\<close>

theorem stun_adds_then_removes:
  "remove_many N (add_many N StunStatus_init) = Inr StunStatus_init
   \<and> \<not> is_stunned StunStatus_init
   \<and> remove_many (Suc N) (add_many N StunStatus_init) = Inl (StunsBelowZero (- 1))"
proof -
  have a: "add_many N StunStatus_init = \<lparr>number_of_active_stuns = int N\<rparr>"
    by (rule add_many_init)
  have r: "remove_many N \<lparr>number_of_active_stuns = int N\<rparr> = Inr StunStatus_init"
    using remove_many_enough [of N "\<lparr>number_of_active_stuns = int N\<rparr>"]
    by (simp add: StunStatus_init_def)
  have last: "remove_one StunStatus_init = Inl (StunsBelowZero (- 1))"
    by (simp add: remove_one_def StunStatus_init_def)
  have more: "remove_many (Suc N) \<lparr>number_of_active_stuns = int N\<rparr>
              = Inl (StunsBelowZero (- 1))"
  proof -
    have "\<And>s. int n \<le> number_of_active_stuns s \<Longrightarrow>
            remove_many (Suc n) s
            = remove_one (s\<lparr>number_of_active_stuns := number_of_active_stuns s - int n\<rparr>)" for n
    proof (induction n)
      case 0
      then show ?case by (simp split: sum.splits)
    next
      case (Suc n)
      let ?s' = "s\<lparr>number_of_active_stuns := number_of_active_stuns s - 1\<rparr>"
      from Suc.prems have r1: "remove_one s = Inr ?s'"
        by (simp add: remove_one_def Let_def)
      from Suc.prems have "int n \<le> number_of_active_stuns ?s'" by simp
      from Suc.IH [OF this] have "remove_many (Suc n) ?s'
          = remove_one (?s'\<lparr>number_of_active_stuns := number_of_active_stuns ?s' - int n\<rparr>)" .
      moreover have "remove_many (Suc (Suc n)) s = remove_many (Suc n) ?s'"
        using r1 by simp
      ultimately show ?case by (simp add: algebra_simps)
    qed
    from this [of N "\<lparr>number_of_active_stuns = int N\<rparr>"] last
    show ?thesis by (simp add: StunStatus_init_def)
  qed
  show ?thesis
    using a r more by (simp add: is_stunned_def StunStatus_init_def)
qed

section \<open>Properties of HealthOrManaResource\<close>

















section \<open>Properties of handle_buffs and gain_buff_effect\<close>

lemma handle_buff_None:
  "time_until_expiration (h a) = None \<Longrightarrow> handle_buff dt a (h, act, upd) = Inl TypeError"
  by (simp add: handle_buff_def notify_time_passed_def)

lemma handle_buff_Some:
  assumes "time_until_expiration (h a) = Some t"
  shows "handle_buff dt a (h, act, upd) =
     (if ends_now dt (h a) \<and> a \<notin> set act then Inl ValueError
      else Inr (h(a := ticked dt (h a)),
                (if ends_now dt (h a) then remove1 a act else act),
                \<lparr>buffs_that_started =
                   buffs_that_started upd @ (if \<not> has_applied_start_effect (h a) then [a] else []),
                 buffs_that_were_active =
                   buffs_that_were_active upd @ (if \<not> has_been_force_cancelled (h a) then [a] else []),
                 buffs_that_ended =
                   buffs_that_ended upd @ (if ends_now dt (h a) then [a] else [])\<rparr>))"
proof -
  obtain e tm fc td ap where hb: "h a = \<lparr>buff_effect = e, time_until_expiration = tm,
      has_been_force_cancelled = fc, total_duration = td, has_applied_start_effect = ap\<rparr>"
    by (cases "h a") simp
  with assms have tm: "tm = Some t" by simp
  show ?thesis
    by (cases upd)
       (simp add: handle_buff_def notify_time_passed_def has_expired_def ends_now_def
          ticked_def Let_def hb tm)
qed

lemma loop_Cons_Some:
  assumes "time_until_expiration (h x) = Some t" and "x \<in> set act"
  shows "handle_buffs_loop dt (x # xs) (h, act, upd) =
     handle_buffs_loop dt xs
       (h(x := ticked dt (h x)),
        (if ends_now dt (h x) then remove1 x act else act),
        \<lparr>buffs_that_started =
           buffs_that_started upd @ (if \<not> has_applied_start_effect (h x) then [x] else []),
         buffs_that_were_active =
           buffs_that_were_active upd @ (if \<not> has_been_force_cancelled (h x) then [x] else []),
         buffs_that_ended =
           buffs_that_ended upd @ (if ends_now dt (h x) then [x] else [])\<rparr>)"
  using assms by (simp add: handle_buff_Some [where h=h and a=x and t=t])

lemma time_ticked:
  "time_until_expiration (ticked dt b) = map_option (\<lambda>t. t - dt) (time_until_expiration b)"
  by (simp add: ticked_def)

lemma mset_rest_after_step:
  assumes "mset (x # xs) \<subseteq># mset act"
  shows "mset xs \<subseteq># mset (if c then remove1 x act else act)"
proof -
  from assms have a: "x \<in># mset act" and b: "mset xs \<subseteq># mset act - {#x#}"
    by (simp_all add: insert_subset_eq_iff)
  from b have "mset xs \<subseteq># mset act"
    by (meson diff_subset_eq_self subset_mset.order_trans)
  with b show ?thesis by simp
qed

lemma loop_TypeError:
  "mset xs \<subseteq># mset act \<Longrightarrow> \<exists>a\<in>set xs. time_until_expiration (h a) = None \<Longrightarrow>
   handle_buffs_loop dt xs (h, act, upd) = Inl TypeError"
proof (induction xs arbitrary: h act upd)
  case Nil
  then show ?case by simp
next
  case (Cons x xs)
  show ?case
  proof (cases "time_until_expiration (h x)")
    case None
    then show ?thesis by (simp add: handle_buff_None)
  next
    case (Some t)
    from Cons.prems(1) have xin: "x \<in> set act"
      by (simp add: insert_subset_eq_iff)
    from Cons.prems(2) Some obtain a where a: "a \<in> set xs" "time_until_expiration (h a) = None"
      by auto
    with Some have "a \<noteq> x" by auto
    with a have ex: "\<exists>a\<in>set xs. time_until_expiration ((h(x := ticked dt (h x))) a) = None"
      by auto
    show ?thesis
      unfolding loop_Cons_Some [where h=h and x=x and t=t and act=act, OF Some xin]
      by (rule Cons.IH [OF mset_rest_after_step [OF Cons.prems(1)] ex])
  qed
qed

lemma loop_ok:
  "mset xs \<subseteq># mset act \<Longrightarrow> \<forall>a\<in>set xs. time_until_expiration (h a) \<noteq> None \<Longrightarrow>
   \<exists>r. handle_buffs_loop dt xs (h, act, upd) = Inr r"
proof (induction xs arbitrary: h act upd)
  case Nil
  then show ?case by simp
next
  case (Cons x xs)
  from Cons.prems(2) obtain t where Some: "time_until_expiration (h x) = Some t" by auto
  from Cons.prems(1) have xin: "x \<in> set act"
    by (simp add: insert_subset_eq_iff)
  from Cons.prems(2) have all: "\<forall>a\<in>set xs. time_until_expiration ((h(x := ticked dt (h x))) a) \<noteq> None"
    by (auto simp add: time_ticked)
  show ?case
    unfolding loop_Cons_Some [where h=h and x=x and t=t and act=act, OF Some xin]
    by (rule Cons.IH [OF mset_rest_after_step [OF Cons.prems(1)] all])
qed

lemma loop_distinct:
  assumes "distinct xs" and "distinct act" and "set xs \<subseteq> set act"
    and "\<forall>a\<in>set xs. time_until_expiration (h a) \<noteq> None"
  shows "handle_buffs_loop dt xs (h, act, upd) =
     Inr ((\<lambda>a. if a \<in> set xs then ticked dt (h a) else h a),
          filter (\<lambda>a. \<not> (a \<in> set xs \<and> ends_now dt (h a))) act,
          \<lparr>buffs_that_started =
             buffs_that_started upd @ filter (\<lambda>a. \<not> has_applied_start_effect (h a)) xs,
           buffs_that_were_active =
             buffs_that_were_active upd @ filter (\<lambda>a. \<not> has_been_force_cancelled (h a)) xs,
           buffs_that_ended =
             buffs_that_ended upd @ filter (\<lambda>a. ends_now dt (h a)) xs\<rparr>)"
  using assms
proof (induction xs arbitrary: h act upd)
  case Nil
  then show ?case by (cases upd) simp
next
  case (Cons x xs)
  from Cons.prems(4) obtain t where Some: "time_until_expiration (h x) = Some t" by auto
  from Cons.prems(3) have xin: "x \<in> set act" by simp
  from Cons.prems(1) have xnot: "x \<notin> set xs" and dxs: "distinct xs" by simp_all
  let ?h1 = "h(x := ticked dt (h x))"
  let ?act1 = "if ends_now dt (h x) then remove1 x act else act"
  have same: "\<And>a. a \<in> set xs \<Longrightarrow> ?h1 a = h a" using xnot by auto
  have d1: "distinct ?act1" using Cons.prems(2) by simp
  have s1: "set xs \<subseteq> set ?act1" using Cons.prems(2,3) xnot by auto
  have a1: "\<forall>a\<in>set xs. time_until_expiration (?h1 a) \<noteq> None"
    using Cons.prems(4) same by simp
  have heap: "(\<lambda>a. if a \<in> set xs then ticked dt (?h1 a) else ?h1 a)
              = (\<lambda>a. if a \<in> set (x # xs) then ticked dt (h a) else h a)"
    using xnot by (auto simp add: fun_eq_iff)
  have f1: "filter (\<lambda>a. \<not> has_applied_start_effect (?h1 a)) xs
            = filter (\<lambda>a. \<not> has_applied_start_effect (h a)) xs"
    by (rule filter_cong) (use xnot in auto)
  have f2: "filter (\<lambda>a. \<not> has_been_force_cancelled (?h1 a)) xs
            = filter (\<lambda>a. \<not> has_been_force_cancelled (h a)) xs"
    by (rule filter_cong) (use xnot in auto)
  have f3: "filter (\<lambda>a. ends_now dt (?h1 a)) xs = filter (\<lambda>a. ends_now dt (h a)) xs"
    by (rule filter_cong) (use xnot in auto)
  have rem: "remove1 x act = filter (\<lambda>a. a \<noteq> x) act"
    using Cons.prems(2) by (simp add: distinct_remove1_removeAll removeAll_filter_not_eq) (rule filter_cong, auto)
  have act: "filter (\<lambda>a. \<not> (a \<in> set xs \<and> ends_now dt (?h1 a))) ?act1
             = filter (\<lambda>a. \<not> (a \<in> set (x # xs) \<and> ends_now dt (h a))) act"
  proof (cases "ends_now dt (h x)")
    case True
    then have "filter (\<lambda>a. \<not> (a \<in> set xs \<and> ends_now dt (?h1 a))) ?act1
               = filter (\<lambda>a. \<not> (a \<in> set xs \<and> ends_now dt (?h1 a)) \<and> a \<noteq> x) act"
      by (simp add: rem conj_commute)
    also have "\<dots> = filter (\<lambda>a. \<not> (a \<in> set (x # xs) \<and> ends_now dt (h a))) act"
      by (rule filter_cong) (use True xnot in auto)
    finally show ?thesis .
  next
    case False
    then have "filter (\<lambda>a. \<not> (a \<in> set xs \<and> ends_now dt (?h1 a))) ?act1
               = filter (\<lambda>a. \<not> (a \<in> set xs \<and> ends_now dt (?h1 a))) act"
      by simp
    also have "\<dots> = filter (\<lambda>a. \<not> (a \<in> set (x # xs) \<and> ends_now dt (h a))) act"
      by (rule filter_cong) (use False xnot in auto)
    finally show ?thesis .
  qed
  show ?case
    unfolding loop_Cons_Some [where h=h and x=x and t=t and act=act, OF Some xin]
    unfolding Cons.IH [OF dxs d1 s1 a1]
    unfolding heap act f1 f2 f3
    by simp
qed

lemma handle_buffs_distinct:
  assumes "distinct act" and "\<forall>a\<in>set act. time_until_expiration (h a) \<noteq> None"
  shows "handle_buffs h act dt =
     Inr ((\<lambda>a. if a \<in> set act then ticked dt (h a) else h a),
          filter (\<lambda>a. \<not> ends_now dt (h a)) act,
          \<lparr>buffs_that_started = filter (\<lambda>a. \<not> has_applied_start_effect (h a)) act,
           buffs_that_were_active = filter (\<lambda>a. \<not> has_been_force_cancelled (h a)) act,
           buffs_that_ended = filter (\<lambda>a. ends_now dt (h a)) act\<rparr>)"
proof -
  have "filter (\<lambda>a. \<not> (a \<in> set act \<and> ends_now dt (h a))) act
        = filter (\<lambda>a. \<not> ends_now dt (h a)) act"
    by (rule filter_cong) auto
  with loop_distinct [OF assms(1) assms(1) subset_refl assms(2)]
  show ?thesis by (simp add: handle_buffs_def)
qed

lemma handle_buffs_Inr_all_Some:
  assumes "handle_buffs h act dt = Inr r"
  shows "\<forall>a\<in>set act. time_until_expiration (h a) \<noteq> None"
proof (rule ccontr)
  assume "\<not> (\<forall>a\<in>set act. time_until_expiration (h a) \<noteq> None)"
  then have "\<exists>a\<in>set act. time_until_expiration (h a) = None" by simp
  from loop_TypeError [OF subset_mset.order_refl this]
  have "handle_buffs h act dt = Inl TypeError" by (simp add: handle_buffs_def)
  with assms show False by simp
qed

text \<open>
  C3, as amended. When the owner's list holds no buff twice, \<^verbatim>\<open>handle_buffs\<close> (and
  \<^verbatim>\<open>PlayerState.handle_buffs\<close>, which returns the same update) gives no buff out both
  as started and as ended. The list of active buffs is not disjoint from the two others.
\<close>

theorem started_and_ended_disjoint:
  assumes "distinct (active_buffs p)"
    and "player_handle_buffs dt (h, p) = Inr (h', p', upd)"
  shows "handle_buffs h (active_buffs p) dt = Inr (h', active_buffs p', upd)
         \<and> set (buffs_that_started upd) \<inter> set (buffs_that_ended upd) = {}"
proof -
  from assms(2) obtain act' where
    r: "handle_buffs h (active_buffs p) dt = Inr (h', act', upd)"
    and p': "p' = notify_buff_observers (p\<lparr>active_buffs := act'\<rparr>)"
    by (auto simp add: player_handle_buffs_def split: sum.splits)
  from p' have act': "active_buffs p' = act'" by (simp add: notify_buff_observers_def)
  from handle_buffs_Inr_all_Some [OF r]
  have all: "\<forall>a\<in>set (active_buffs p). time_until_expiration (h a) \<noteq> None" .
  from r handle_buffs_distinct [OF assms(1) all, of dt]
  have "buffs_that_started upd = filter (\<lambda>a. \<not> has_applied_start_effect (h a)) (active_buffs p)"
    and "buffs_that_ended upd = filter (\<lambda>a. ends_now dt (h a)) (active_buffs p)"
    by auto
  then have "set (buffs_that_started upd) \<inter> set (buffs_that_ended upd) = {}"
    by (auto simp add: ends_now_def)
  with r act' show ?thesis by simp
qed

text \<open>
  C10. A buff constructed with the duration \<^verbatim>\<open>None\<close> raises TypeError on
  \<^verbatim>\<open>notify_time_passed\<close>, and so does every buff whose remaining time is \<^verbatim>\<open>None\<close>;
  \<^verbatim>\<open>handle_buffs\<close> on a list that holds such a buff raises TypeError, so that it
  completes only when no buff of the list has the remaining time \<^verbatim>\<open>None\<close>
  (\<open>handle_buffs_completes\<close> is the converse).
\<close>

theorem handle_buffs_none_duration:
  assumes "a \<in> set active" and "time_until_expiration (h a) = None"
  shows "notify_time_passed dt (BuffWithDuration_init effect None) = Inl TypeError
         \<and> notify_time_passed dt (h a) = Inl TypeError
         \<and> handle_buffs h active dt = Inl TypeError"
proof -
  from assms have "\<exists>a\<in>set active. time_until_expiration (h a) = None" by auto
  from loop_TypeError [OF subset_mset.order_refl this]
  have "handle_buffs h active dt = Inl TypeError" by (simp add: handle_buffs_def)
  with assms(2) show ?thesis
    by (simp add: notify_time_passed_def BuffWithDuration_init_def)
qed

lemma handle_buffs_completes:
  assumes "\<forall>a\<in>set active. time_until_expiration (h a) \<noteq> None"
  shows "\<exists>r. handle_buffs h active dt = Inr r"
  using loop_ok [OF subset_mset.order_refl assms] by (simp add: handle_buffs_def)



lemmas buff_eval = handle_buffs_def handle_buff_def notify_time_passed_def has_expired_def
  BuffWithDuration_init_def every_buff_def Let_def

theorem started_and_ended_disjoint_witness:
  "distinct (active_buffs (example_player\<lparr>active_buffs := [0, 1]\<rparr>))
   \<and> map_sum id (snd \<circ> snd)
        (player_handle_buffs 10
           ((every_buff (BuffWithDuration_init () (Some 100)))
              (1 := \<lparr>buff_effect = (), time_until_expiration = Some 5,
                     has_been_force_cancelled = False, total_duration = Some 100,
                     has_applied_start_effect = True\<rparr>),
            example_player\<lparr>active_buffs := [0, 1]\<rparr>))
     = Inr \<lparr>buffs_that_started = [0], buffs_that_were_active = [0, 1], buffs_that_ended = [1]\<rparr>"
proof -
  let ?h = "(every_buff (BuffWithDuration_init () (Some 100)))
              (1 := \<lparr>buff_effect = (), time_until_expiration = Some 5,
                     has_been_force_cancelled = False, total_duration = Some 100,
                     has_applied_start_effect = True\<rparr>)"
  let ?p = "example_player\<lparr>active_buffs := [0, 1]\<rparr>"
  have d: "distinct (active_buffs ?p)" by simp
  have "\<exists>h' p' upd. player_handle_buffs 10 (?h, ?p) = Inr (h', p', upd)"
    by (simp add: player_handle_buffs_def buff_eval)
  then obtain h' p' upd where r: "player_handle_buffs 10 (?h, ?p) = Inr (h', p', upd)"
    by blast
  from started_and_ended_disjoint [OF d r] d show ?thesis
    by (simp add: player_handle_buffs_def buff_eval)
qed

text \<open>
  C3 as stated fails: the first call on a new buff returns it as started and as active.
\<close>

theorem started_and_active_overlap_counterexample:
  "map_sum id (snd \<circ> snd) (handle_buffs (every_buff (BuffWithDuration_init () (Some 1000))) [0] 10)
   = Inr \<lparr>buffs_that_started = [0], buffs_that_were_active = [0], buffs_that_ended = []\<rparr>"
  by (simp add: buff_eval)

theorem handle_buffs_none_duration_witness:
  "(0::nat) \<in> set [0]
   \<and> time_until_expiration (every_buff (BuffWithDuration_init () None) 0) = None
   \<and> handle_buffs (every_buff (BuffWithDuration_init () None)) [0] 10 = Inl TypeError"
  using handle_buffs_none_duration [of 0 "[0]" "every_buff (BuffWithDuration_init () None)" 10 "()"]
  by (simp add: BuffWithDuration_init_def every_buff_def)



lemma first_match:
  "x \<in> set xs \<Longrightarrow> P x \<Longrightarrow> \<exists>y ys. filter P xs = y # ys \<and> List.find P xs = Some y"
  by (induction xs) auto

text \<open>
  C5. When a buff of the list has the type of the new effect, \<^verbatim>\<open>gain_buff_effect\<close> of
  the player and of an NPC with that list leave the list as it is, create no object, and
  change the store at one address only, that of the first buff of the list with this
  type: its remaining time becomes the new duration, and nothing else of it changes.
\<close>

theorem gain_buff_effect_refreshes:
  assumes "b \<in> set (active_buffs p)"
    and "get_buff_type (buff_effect (objects st b)) = get_buff_type buff"
  shows "\<exists>b'. List.find (\<lambda>x. get_buff_type (buff_effect (objects st x)) = get_buff_type buff)
                 (active_buffs p) = Some b'
           \<and> gain_buff_effect get_buff_type buff duration (st, p)
             = (st\<lparr>objects := (objects st)
                     (b' := (objects st b')\<lparr>time_until_expiration := Some duration\<rparr>)\<rparr>,
                notify_buff_observers p)
           \<and> npc_gain_buff_effect get_buff_type buff duration
               (st, npc\<lparr>npc_active_buffs := active_buffs p\<rparr>)
             = (st\<lparr>objects := (objects st)
                     (b' := (objects st b')\<lparr>time_until_expiration := Some duration\<rparr>)\<rparr>,
                npc\<lparr>npc_active_buffs := active_buffs p\<rparr>)
           \<and> active_buffs (notify_buff_observers p) = active_buffs p"
proof -
  let ?P = "\<lambda>x. get_buff_type (buff_effect (objects st x)) = get_buff_type buff"
  from first_match [of b "active_buffs p" ?P, OF assms]
  obtain y ys where f: "filter ?P (active_buffs p) = y # ys"
    and g: "List.find ?P (active_buffs p) = Some y" by blast
  show ?thesis
    using f g
    by (simp add: gain_buff_effect_def npc_gain_buff_effect_def set_remaining_duration_def
          notify_buff_observers_def Let_def)
qed

theorem gain_buff_effect_refreshes_witness:
  "(1::nat) \<in> set (active_buffs (example_player\<lparr>active_buffs := [0, 1]\<rparr>))
   \<and> buff_effect (objects example_store 1) mod 2 = (4::nat) mod 2
   \<and> active_buffs (snd (gain_buff_effect (\<lambda>e. e mod 2) 4 300
        (example_store, example_player\<lparr>active_buffs := [0, 1]\<rparr>))) = [0, 1]
   \<and> time_until_expiration (objects (fst (gain_buff_effect (\<lambda>e. e mod 2) 4 300
        (example_store, example_player\<lparr>active_buffs := [0, 1]\<rparr>))) 1) = Some 300
   \<and> time_until_expiration (objects (fst (gain_buff_effect (\<lambda>e. e mod 2) 4 300
        (example_store, example_player\<lparr>active_buffs := [0, 1]\<rparr>))) 0) = Some 100"
  using gain_buff_effect_refreshes [of 1 "example_player\<lparr>active_buffs := [0, 1]\<rparr>"
      "\<lambda>e. e mod 2" example_store 4 300]
  by (simp add: example_store_def gain_buff_effect_def set_remaining_duration_def
        notify_buff_observers_def BuffWithDuration_init_def every_buff_def Let_def)

section \<open>Properties of gain_exp\<close>











section \<open>Properties of Buckets and of the movement\<close>

lemma range_index_valid:
  "i \<in> set [max 0 lo .. min (hi + 1) (int n - 1) - 1] \<Longrightarrow> 0 \<le> i \<and> nat i < n"
  by auto

lemmas buckets_eval = query_after_init_def bucket_after_init_def bucket_index_in_world_def
  Buckets_init_def add_entity_def bucket_for_world_position_def
  bucket_index_for_world_position_def set_bucket_def get_entitites_close_to_world_area_def
  get_entities_close_to_position_def buckets_between_indices_def
  BUCKET_WIDTH_def BUCKET_HEIGHT_def topleft_def bottomright_def Let_def

text \<open>
  C6 fails on the code. In a world of 250 by 250 the grid has the columns and rows 0, 1
  and 2. An entity at (210, 210) is stored in cell (2, 2); the rectangle from (200, 200)
  to (250, 250) has both corners in cell (2, 2); the query with this rectangle returns
  the entity of cell (1, 1) and not the entity of cell (2, 2): the upper bound
  \<^verbatim>\<open>min(x1 + 1, len(self._buckets) - 1)\<close> of the range is exclusive, so the last column
  and the last row are never visited.
\<close>

theorem last_bucket_never_returned:
  "bucket_after_init id [(210, 210), (110, 110)]
      \<lparr>rect_x = 0, rect_y = 0, rect_w = 250, rect_h = 250\<rparr> (210, 210) = Inr [(210, 210)]
   \<and> bucket_index_in_world \<lparr>rect_x = 0, rect_y = 0, rect_w = 250, rect_h = 250\<rparr> (200, 200) = (2, 2)
   \<and> bucket_index_in_world \<lparr>rect_x = 0, rect_y = 0, rect_w = 250, rect_h = 250\<rparr> (250, 250) = (2, 2)
   \<and> query_after_init id [(210, 210), (110, 110)]
        \<lparr>rect_x = 0, rect_y = 0, rect_w = 250, rect_h = 250\<rparr>
        \<lparr>rect_x = 200, rect_y = 200, rect_w = 50, rect_h = 50\<rparr> = Inr [(110, 110)]"
  by (simp add: buckets_eval eval_nat_numeral upto.simps)

lemma set_position_fields:
  "ent_x (set_position pos e) = fst pos" "ent_y (set_position pos e) = snd pos"
  "ent_w (set_position pos e) = ent_w e" "ent_h (set_position pos e) = ent_h e"
  "pygame_collision_rect (set_position pos e)
     = \<lparr>rect_x = fst pos, rect_y = snd pos, rect_w = ent_w e, rect_h = ent_h e\<rparr>"
  "get_position (set_position pos e) = pos"
  by (simp_all add: set_position_def get_position_def Let_def)

lemma set_position_twice: "set_position q (set_position pos e) = set_position q e"
  by (simp add: set_position_def Let_def)

lemma would_collide_true:
  assumes "is_position_within_game_world ext gs npw"
    and "other \<in> set (other_entities gs npw)" and "other \<noteq> entity"
    and "colliderect ext
           \<lparr>rect_x = fst npw, rect_y = snd npw, rect_w = ent_w (es entity), rect_h = ent_h (es entity)\<rparr>
           (pygame_collision_rect (es other))"
  shows "would_entity_collide_if_new_pos ext gs es entity npw
         = Inr (True, es(entity := set_position (ent_x (es entity), ent_y (es entity)) (es entity)))"
proof -
  let ?es1 = "es(entity := set_position npw (es entity))"
  have pos: "get_position (?es1 entity) = npw" by (simp add: set_position_fields)
  have hit: "entities_collide ext (?es1 entity) (?es1 other) \<and> entity \<noteq> other"
    using assms(3,4) by (simp add: entities_collide_def set_position_fields)
  have "filter (\<lambda>other. entities_collide ext (?es1 entity) (?es1 other) \<and> entity \<noteq> other)
          (other_entities gs npw) \<noteq> []"
    using assms(2) hit by (auto simp add: filter_empty_conv)
  with assms(1) pos show ?thesis
    by (simp add: would_entity_collide_if_new_pos_def Let_def set_position_twice)
qed

text \<open>
  What the code does guarantee: when the entity is moving, its candidate position clamped
  into the world is within the world, and the rectangle of the entity at that position
  collides with the rectangle of another entity of the list that
  \<^verbatim>\<open>would_entity_collide_if_new_pos\<close> builds, then the update returns without an
  exception and the entity has the position it had; no other entity is changed. Of the
  walls, the list holds those that the bucket index returns for the position.
\<close>

lemma found_collision_keeps_position:
  assumes "get_new_position_according_to_dir_and_speed ext time_passed (es entity)
           = Some new_position"
    and "npw = get_within_world gs new_position (ent_w (es entity), ent_h (es entity))"
    and "is_position_within_game_world ext gs npw"
    and "other \<in> set (other_entities gs npw)" and "other \<noteq> entity"
    and "colliderect ext
           \<lparr>rect_x = fst npw, rect_y = snd npw, rect_w = ent_w (es entity), rect_h = ent_h (es entity)\<rparr>
           (pygame_collision_rect (es other))"
  shows "\<exists>es'. update_world_entity_position_within_game_world ext gs es entity time_passed = Inr es'
           \<and> ent_x (es' entity) = ent_x (es entity) \<and> ent_y (es' entity) = ent_y (es entity)
           \<and> es' = es(entity := set_position (ent_x (es entity), ent_y (es entity)) (es entity))"
  using assms(1) would_collide_true [OF assms(3) assms(4) assms(5) assms(6)] assms(2)
  by (simp add: update_world_entity_position_within_game_world_def Let_def set_position_fields)

lemmas movement_eval = update_world_entity_position_within_game_world_def
  would_entity_collide_if_new_pos_def get_new_position_according_to_dir_and_speed_def
  get_within_world_def is_position_within_game_world_def entities_collide_def
  other_entities_def get_walls_close_to_position_def set_position_def get_position_def
  example_externals_def example_game_state_def example_entities_def every_entity_def
  entity_at_def HealthOrManaResource_init_def StunStatus_init_def

lemma found_collision_keeps_position_example:
  "get_new_position_according_to_dir_and_speed example_externals 10 (example_entities 0)
     = Some (20, 10)
   \<and> get_within_world example_game_state (20, 10) (10, 10) = (20, 10)
   \<and> is_position_within_game_world example_externals example_game_state (20, 10)
   \<and> (1::nat) \<in> set (other_entities example_game_state (20, 10)) \<and> (1::nat) \<noteq> 0
   \<and> colliderect example_externals
        \<lparr>rect_x = 20, rect_y = 10, rect_w = 10, rect_h = 10\<rparr>
        (pygame_collision_rect (example_entities 1))
   \<and> map_sum id (get_position \<circ> (\<lambda>es. es 0))
        (update_world_entity_position_within_game_world example_externals example_game_state
           example_entities 0 10) = Inr (10, 10)"
  using found_collision_keeps_position [of example_externals 10 example_entities 0 "(20, 10)" "(20, 10)"
      example_game_state 1]
  by (simp add: movement_eval buckets_eval eval_nat_numeral upto.simps)

lemma no_walls_close_to_last_column:
  "get_walls_close_to_position (walls_state walled_game_state) (205, 100) = []"
  by (simp add: walled_game_state_def get_walls_close_to_position_def buckets_eval
        eval_nat_numeral upto.simps)

lemma walled_other_entities: "other_entities walled_game_state (205, 100) = [0]"
  using no_walls_close_to_last_column by (simp add: other_entities_def walled_game_state_def)

lemma walled_new_position:
  "get_new_position_according_to_dir_and_speed example_externals 10 (walled_entities 0)
     = Some (205, 100)"
  by (simp add: get_new_position_according_to_dir_and_speed_def example_externals_def
        walled_entities_def every_entity_def entity_at_def)

lemma walled_within_world:
  "get_within_world walled_game_state (205, 100)
     (ent_w (walled_entities 0), ent_h (walled_entities 0)) = (205, 100)"
  by (simp add: get_within_world_def walled_game_state_def walled_entities_def
        every_entity_def entity_at_def)

lemma walled_position_in_world:
  "is_position_within_game_world example_externals walled_game_state (205, 100)"
  by (simp add: is_position_within_game_world_def example_externals_def walled_game_state_def)

lemma walled_no_collision_found:
  "would_entity_collide_if_new_pos example_externals walled_game_state walled_entities 0 (205, 100)
   = Inr (False,
          walled_entities
            (0 := set_position (195, 100) (set_position (205, 100) (walled_entities 0))))"
proof -
  have p: "get_position (set_position (205, 100) (walled_entities 0)) = (205, 100)"
    by (simp add: get_position_def set_position_def Let_def)
  have xy: "ent_x (walled_entities 0) = 195" "ent_y (walled_entities 0) = 100"
    by (simp_all add: walled_entities_def every_entity_def entity_at_def)
  show ?thesis
    using walled_position_in_world
    by (simp add: would_entity_collide_if_new_pos_def Let_def p walled_other_entities xy)
qed

lemma walled_update:
  "update_world_entity_position_within_game_world example_externals walled_game_state
     walled_entities 0 10
   = Inr (walled_entities(0 := set_position (205, 100) (walled_entities 0)))"
  by (simp add: update_world_entity_position_within_game_world_def walled_new_position
        walled_within_world walled_no_collision_found Let_def set_position_def)

text \<open>
  C8 fails on the code. In the world of 250 by 250 the wall at (210, 100) is stored in
  cell (2, 1) of the bucket index that \<^verbatim>\<open>WallsState\<close> builds. The player at (195, 100)
  moves right for 10 milliseconds: the candidate position (205, 100) is within the world
  and in the wall's own cell, and the player's rectangle there intersects the wall's.
  \<^verbatim>\<open>get_walls_close_to_position\<close> returns no wall, because the bucket query never
  visits the last column, so no collision is found and the player is moved to
  (205, 100), into the wall.
\<close>

theorem wall_in_last_column_not_detected:
  "Buckets_init (get_position \<circ> walled_entities) [2]
      \<lparr>rect_x = 0, rect_y = 0, rect_w = 250, rect_h = 250\<rparr>
     = Inr (walls_buckets (walls_state walled_game_state))
   \<and> bucket_for_world_position (walls_buckets (walls_state walled_game_state)) (210, 100) = Inr [2]
   \<and> bucket_index_in_world \<lparr>rect_x = 0, rect_y = 0, rect_w = 250, rect_h = 250\<rparr> (205, 100) = (2, 1)
   \<and> get_position (walled_entities 0) = (195, 100)
   \<and> get_new_position_according_to_dir_and_speed example_externals 10 (walled_entities 0)
     = Some (205, 100)
   \<and> get_within_world walled_game_state (205, 100) (10, 10) = (205, 100)
   \<and> is_position_within_game_world example_externals walled_game_state (205, 100)
   \<and> colliderect example_externals
        \<lparr>rect_x = 205, rect_y = 100, rect_w = 10, rect_h = 10\<rparr>
        (pygame_collision_rect (walled_entities 2))
   \<and> get_walls_close_to_position (walls_state walled_game_state) (205, 100) = []
   \<and> map_sum id (get_position \<circ> (\<lambda>es. es 0))
        (update_world_entity_position_within_game_world example_externals walled_game_state
           walled_entities 0 10) = Inr (205, 100)"
proof -
  have a: "Buckets_init (get_position \<circ> walled_entities) [2]
      \<lparr>rect_x = 0, rect_y = 0, rect_w = 250, rect_h = 250\<rparr>
     = Inr (walls_buckets (walls_state walled_game_state))"
    by (simp add: walled_entities_def walled_game_state_def every_entity_def entity_at_def
          get_position_def buckets_eval eval_nat_numeral)
  have b: "bucket_for_world_position (walls_buckets (walls_state walled_game_state)) (210, 100)
           = Inr [2]"
    by (simp add: walled_game_state_def buckets_eval eval_nat_numeral)
  have c: "bucket_index_in_world \<lparr>rect_x = 0, rect_y = 0, rect_w = 250, rect_h = 250\<rparr> (205, 100)
           = (2, 1)"
    by (simp add: buckets_eval)
  have d: "get_position (walled_entities 0) = (195, 100)"
    by (simp add: get_position_def walled_entities_def every_entity_def entity_at_def)
  have e: "get_within_world walled_game_state (205, 100) (10, 10) = (205, 100)"
    by (simp add: get_within_world_def walled_game_state_def)
  have f: "colliderect example_externals
        \<lparr>rect_x = 205, rect_y = 100, rect_w = 10, rect_h = 10\<rparr>
        (pygame_collision_rect (walled_entities 2))"
    by (simp add: example_externals_def walled_entities_def entity_at_def)
  have g: "map_sum id (get_position \<circ> (\<lambda>es. es 0))
        (update_world_entity_position_within_game_world example_externals walled_game_state
           walled_entities 0 10) = Inr (205, 100)"
    by (simp add: walled_update get_position_def set_position_def)
  from a b c d e f g walled_new_position walled_position_in_world
    no_walls_close_to_last_column
  show ?thesis by (simp only: simp_thms)
qed

end
